theory Spec2Isabelle
  imports Main "HOL-Library.Sublist"
begin

section \<open>JavaScript values as the dashboard reads them\<close>

text \<open>
  The dashboard (\<^verbatim>\<open>src/web/js/app.js\<close>) reads JSON files and relies on JavaScript's
  dynamic typing throughout (\<^verbatim>\<open>a || b\<close> defaults, property reads on arbitrary values,
  string interpolation). The values are therefore modelled as one datatype. Numbers are
  integers: every number the data model carries is a count or an index. Strings are
  byte lists holding the UTF-8 encoding of the JavaScript string; equality of strings and
  the ASCII characters \<^verbatim>\<open>&\<close>, \<^verbatim>\<open><\<close>, \<^verbatim>\<open>>\<close> are the same in both readings.
  An object is the association list of its own properties after \<^verbatim>\<open>JSON.parse\<close>.
\<close>

datatype jsval =
    JUndefined
  | JNull
  | JBool bool
  | JNum int
  | JStr string
  | JArr "jsval list"
  | JObj "(string \<times> jsval) list"

datatype error =
    TypeError
  | FetchRejected
  | SyntaxError
  | Error string

text \<open>\<^verbatim>\<open>!!v\<close>: the falsy values are undefined, null, false, 0 and the empty string.\<close>

fun truthy :: "jsval \<Rightarrow> bool" where
  "truthy JUndefined = False"
| "truthy JNull = False"
| "truthy (JBool b) = b"
| "truthy (JNum n) = (n \<noteq> 0)"
| "truthy (JStr s) = (s \<noteq> [])"
| "truthy (JArr xs) = True"
| "truthy (JObj kvs) = True"

text \<open>\<^verbatim>\<open>a || b\<close>\<close>

definition js_or :: "jsval \<Rightarrow> jsval \<Rightarrow> jsval" where
  "js_or a b = (if truthy a then a else b)"

fun nullish :: "jsval \<Rightarrow> bool" where
  "nullish JUndefined = True"
| "nullish JNull = True"
| "nullish v = False"

text \<open>
  \<^verbatim>\<open>v.k\<close> and \<^verbatim>\<open>v[k]\<close> for the property names this program reads, on a value that is
  neither null nor undefined: an object yields its own property or undefined, any other
  value yields undefined (none of the names read here is a built-in property of a string,
  number, boolean or array; \<^verbatim>\<open>length\<close> is modelled apart, in \<open>js_length\<close>).
\<close>

fun js_get :: "jsval \<Rightarrow> string \<Rightarrow> jsval" where
  "js_get (JObj kvs) k = (case map_of kvs k of None \<Rightarrow> JUndefined | Some v \<Rightarrow> v)"
| "js_get v k = JUndefined"

text \<open>The same read, with the TypeError that null and undefined raise.\<close>

definition get_prop :: "jsval \<Rightarrow> string \<Rightarrow> error + jsval" where
  "get_prop v k = (if nullish v then Inl TypeError else Inr (js_get v k))"

text \<open>\<^verbatim>\<open>v?.k\<close>\<close>

definition get_opt :: "jsval \<Rightarrow> string \<Rightarrow> jsval" where
  "get_opt v k = (if nullish v then JUndefined else js_get v k)"

text \<open>\<^verbatim>\<open>v.length\<close> on a value that is neither null nor undefined.\<close>

fun js_length :: "jsval \<Rightarrow> jsval" where
  "js_length (JArr xs) = JNum (int (length xs))"
| "js_length (JStr s) = JNum (int (length s))"
| "js_length v = js_get v ''length''"

subsection \<open>String conversion\<close>

definition digit_char :: "nat \<Rightarrow> char" where
  "digit_char d = ''0123456789'' ! d"

fun show_nat :: "nat \<Rightarrow> string" where
  "show_nat n = (if n < 10 then [digit_char n] else show_nat (n div 10) @ [digit_char (n mod 10)])"

declare show_nat.simps [simp del]

definition show_int :: "int \<Rightarrow> string" where
  "show_int i = (if i < 0 then ''-'' @ show_nat (nat (- i)) else show_nat (nat i))"

text \<open>\<^verbatim>\<open>xs.join(sep)\<close> on strings.\<close>

fun join :: "string \<Rightarrow> string list \<Rightarrow> string" where
  "join sep [] = []"
| "join sep [x] = x"
| "join sep (x # y # ys) = x @ sep @ join sep (y # ys)"

text \<open>
  \<^verbatim>\<open>String(v)\<close>, which is what a template literal \<^verbatim>\<open>${v}\<close> and the DOM's string
  attributes apply. An array joins its elements with commas, null and undefined elements
  giving the empty string.
\<close>

fun to_string :: "jsval \<Rightarrow> string" where
  "to_string JUndefined = ''undefined''"
| "to_string JNull = ''null''"
| "to_string (JBool b) = (if b then ''true'' else ''false'')"
| "to_string (JNum n) = show_int n"
| "to_string (JStr s) = s"
| "to_string (JArr xs) = join '','' (map (\<lambda>x. if nullish x then [] else to_string x) xs)"
| "to_string (JObj kvs) = ''[object Object]''"

section \<open>Texts of the page\<close>

text \<open>The importance levels as the data files spell them: U+9AD8 (high), U+4E2D (medium), U+4F4E (low).\<close>

definition key_high :: string where
  \<open>key_high = [CHR 0xE9, CHR 0xAB, CHR 0x98]\<close>

definition key_medium :: string where
  \<open>key_medium = [CHR 0xE4, CHR 0xB8, CHR 0xAD]\<close>

definition key_low :: string where
  \<open>key_low = [CHR 0xE4, CHR 0xBD, CHR 0x8E]\<close>

text \<open>The two category names passed to \<open>renderNews\<close>.\<close>

definition cat_domestic :: string where
  \<open>cat_domestic = [CHR 0xE5, CHR 0x9B, CHR 0xBD, CHR 0xE5, CHR 0x86, CHR 0x85]\<close>

definition cat_international :: string where
  \<open>cat_international = [CHR 0xE5, CHR 0x9B, CHR 0xBD, CHR 0xE9, CHR 0x99, CHR 0x85]\<close>

section \<open>The news renderer\<close>

subsection \<open>escapeHtml\<close>

text \<open>
  \<^verbatim>\<open>escapeHtml\<close> stores the text in a fresh \<^verbatim>\<open>div\<close> through \<^verbatim>\<open>textContent\<close> and reads
  \<^verbatim>\<open>innerHTML\<close> back. The browser does the escaping; \<open>serialize_text\<close> is the HTML
  standard's serialisation of a text node: \<^verbatim>\<open>&\<close>, U+00A0 (bytes C2 A0), \<^verbatim>\<open><\<close> and
  \<^verbatim>\<open>>\<close> are replaced, quotes are kept.
\<close>

fun serialize_text :: "string \<Rightarrow> string" where
  "serialize_text [] = []"
| "serialize_text (c # cs) =
     (if c = CHR ''&'' then ''&amp;'' @ serialize_text cs
      else if c = CHR ''<'' then ''&lt;'' @ serialize_text cs
      else if c = CHR ''>'' then ''&gt;'' @ serialize_text cs
      else if c = CHR 0xC2 then
        (case cs of
           d # ds \<Rightarrow> if d = CHR 0xA0 then ''&nbsp;'' @ serialize_text ds
                     else c # serialize_text cs
         | [] \<Rightarrow> [c])
      else c # serialize_text cs)"

definition escapeHtml :: "jsval \<Rightarrow> string" where
  "escapeHtml text = (if \<not> truthy text then [] else serialize_text (to_string text))"

subsection \<open>getImportanceClass\<close>

definition getImportanceClass :: "jsval \<Rightarrow> string" where
  "getImportanceClass importance =
     (if importance = JStr key_high then ''high''
      else if importance = JStr key_medium then ''medium''
      else if importance = JStr key_low then ''low''
      else ''medium'')"

subsection \<open>renderNews\<close>

text \<open>\<^verbatim>\<open>(news.tags || []).map(tag => `<span class="tag">${tag}</span>`).join('')\<close>\<close>

definition render_tag :: "jsval \<Rightarrow> string" where
  \<open>render_tag tag = ''<span class="tag">'' @ to_string tag @ ''</span>''\<close>

definition render_tags :: "jsval \<Rightarrow> error + string" where
  "render_tags tags =
     (case js_or tags (JArr []) of
        JArr ts \<Rightarrow> Inr (concat (map render_tag ts))
      | _ \<Rightarrow> Inl TypeError)"

text \<open>
  The template literal of the callback of \<^verbatim>\<open>newsList.map\<close>, given the item and the
  joined tag spans. The literal text is the source's, cut at tag boundaries.
\<close>

definition item_html :: "jsval \<Rightarrow> string \<Rightarrow> string" where
  \<open>item_html news tags =
     (let importanceClass = getImportanceClass (js_get news ''importance'');
          importanceText = js_or (js_get news ''importance'') (JStr key_medium);
          link = (if truthy (js_get news ''url'')
                  then ''<a href="'' @ to_string (js_get news ''url'') @
                       ''" target="_blank">'' @ [CHR 0xF0, CHR 0x9F, CHR 0x94, CHR 0x97] @ '' '' @
                       [CHR 0xE6, CHR 0x9F, CHR 0xA5, CHR 0xE7, CHR 0x9C, CHR 0x8B,
                        CHR 0xE5, CHR 0x8E, CHR 0x9F, CHR 0xE6, CHR 0x96, CHR 0x87] @ ''</a>''
                  else []);
          tagsdiv = (if tags \<noteq> []
                     then ''<div class="news-tags">'' @ tags @ ''</div>''
                     else [])
      in
  ''\<newline>            <div class="news-item '' @ importanceClass @ ''">'' @
  ''\<newline>                <div class="news-header">'' @
  ''\<newline>                    <span class="news-index">'' @ to_string (js_get news ''index'') @ ''</span>'' @
  ''\<newline>                    '' @
  ''<h4 class="news-title">'' @ escapeHtml (js_or (js_get news ''title'') (JStr [])) @ ''</h4>'' @
  ''\<newline>                    '' @
  ''<span class="importance-badge '' @ importanceClass @ ''">'' @ to_string importanceText @ ''</span>'' @
  ''\<newline>                </div>'' @
  ''\<newline>                '' @
  ''<p class="news-summary">'' @ escapeHtml (js_or (js_get news ''summary'') (JStr [])) @ ''</p>'' @
  ''\<newline>                <div class="news-meta">'' @
  ''\<newline>                    '' @
  ''<span>'' @ [CHR 0xF0, CHR 0x9F, CHR 0x93, CHR 0xB0] @ '' '' @
     escapeHtml (js_or (js_get news ''source'') (JStr ''N/A'')) @ ''</span>'' @
  ''\<newline>                    '' @ link @
  ''\<newline>                </div>'' @
  ''\<newline>                '' @ tagsdiv @
  ''\<newline>            </div>'' @
  ''\<newline>        '')\<close>

text \<open>
  The callback itself: reading \<^verbatim>\<open>news.importance\<close> throws on a null item, and
  \<^verbatim>\<open>(news.tags || []).map\<close> throws when the tags are not an array.
\<close>

definition render_item :: "jsval \<Rightarrow> error + string" where
  "render_item news =
     (case get_prop news ''importance'' of
        Inl e \<Rightarrow> Inl e
      | Inr importance \<Rightarrow>
          (case render_tags (js_get news ''tags'') of
             Inl e \<Rightarrow> Inl e
           | Inr tags \<Rightarrow> Inr (item_html news tags)))"

text \<open>\<^verbatim>\<open>newsList.map(...)\<close> stops at the first item that throws.\<close>

fun render_items :: "jsval list \<Rightarrow> error + string list" where
  "render_items [] = Inr []"
| "render_items (n # ns) =
     (case render_item n of
        Inl e \<Rightarrow> Inl e
      | Inr h \<Rightarrow> (case render_items ns of Inl e \<Rightarrow> Inl e | Inr hs \<Rightarrow> Inr (h # hs)))"

definition empty_state_html :: "string \<Rightarrow> string" where
  \<open>empty_state_html category =
     ''\<newline>            <div class="empty-state">\<newline>                <div class="icon">'' @
     [CHR 0xF0, CHR 0x9F, CHR 0x93, CHR 0xAD] @ ''</div>\<newline>                <p>'' @
     [CHR 0xE6, CHR 0x9A, CHR 0x82, CHR 0xE6, CHR 0x97, CHR 0xA0] @ category @
     [CHR 0xE5, CHR 0x8A, CHR 0xA8, CHR 0xE6, CHR 0x80, CHR 0x81] @
     ''</p>\<newline>            </div>\<newline>        ''\<close>

text \<open>
  The string \<open>renderNews\<close> assigns to the container's \<^verbatim>\<open>innerHTML\<close>, or the error it
  throws before assigning. A list that is neither falsy nor an array has no \<^verbatim>\<open>map\<close>
  method, unless its \<^verbatim>\<open>length\<close> is 0 and the placeholder is rendered.
\<close>

definition news_html :: "jsval \<Rightarrow> string \<Rightarrow> error + string" where
  "news_html newsList category =
     (if \<not> truthy newsList \<or> js_length newsList = JNum 0
      then Inr (empty_state_html category)
      else case newsList of
             JArr ns \<Rightarrow> (case render_items ns of Inl e \<Rightarrow> Inl e | Inr hs \<Rightarrow> Inr (concat hs))
           | _ \<Rightarrow> Inl TypeError)"

section \<open>Fixed texts and the demo dataset\<close>

text \<open>
  The string literals of the source that are not ASCII, as UTF-8 bytes:
  \<^item> \<open>demo_domestic_1\<close>, \<open>demo_domestic_2\<close>, \<open>demo_international_1\<close>,
    \<open>demo_international_2\<close>, \<open>demo_summary\<close>: the object \<^verbatim>\<open>demoNews\<close> of
    \<^verbatim>\<open>loadDemoData\<close>, field by field;
  \<^item> \<open>no_summary\<close>: the text shown when a daily file has no summary ("no summary yet");
  \<^item> \<open>last_updated_prefix\<close>, \<open>unknown_text\<close>: "last updated:" and "unknown", the two
    parts of the last-updated label;
  \<^item> \<open>no_data_label\<close>, \<open>label_domestic\<close>, \<open>label_international\<close>: the label of an
    empty trend chart ("no data") and the names of its two series;
  \<^item> \<open>label_high\<close>, \<open>label_medium\<close>, \<open>label_low\<close>: the three labels of the
    importance chart;
  \<^item> \<open>loading_html\<close>: the loading placeholder of \<^verbatim>\<open>loadDailyNews\<close>;
  \<^item> \<open>index_missing_msg\<close>, \<open>daily_missing_msg\<close>: the messages of the two errors thrown
    on a response that is not \<^verbatim>\<open>ok\<close>.
\<close>

definition demo_domestic_1 :: jsval where
  \<open>demo_domestic_1 = JObj
     [(''index'', JNum 1),
      (''title'', JStr ([CHR 0xE6, CHR 0x99, CHR 0xBA, CHR 0xE8, CHR 0xB0, CHR 0xB1] @ ''AI'' @ [CHR 0xE5, CHR 0xBC, CHR 0x80, CHR 0xE6, CHR 0xBA, CHR 0x90] @ ''AutoGLM'' @ [CHR 0xE9, CHR 0xA1, CHR 0xB9, CHR 0xE7, CHR 0x9B, CHR 0xAE])),
      (''summary'', JStr (''12'' @ [CHR 0xE6, CHR 0x9C, CHR 0x88] @ ''9'' @ [CHR 0xE6, CHR 0x97, CHR 0xA5, CHR 0xE6, CHR 0xB6, CHR 0x88, CHR 0xE6, CHR 0x81, CHR 0xAF, CHR 0xEF, CHR 0xBC, CHR 0x8C,
      CHR 0xE6, CHR 0x99, CHR 0xBA, CHR 0xE8, CHR 0xB0, CHR 0xB1] @ ''AI'' @ [CHR 0xE5, CHR 0xAE, CHR 0xA3, CHR 0xE5, CHR 0xB8, CHR 0x83, CHR 0xE5, CHR 0xBC, CHR 0x80, CHR 0xE6, CHR 0xBA, CHR 0x90] @ ''AutoGLM'' @ [CHR 0xE9, CHR 0xA1, CHR 0xB9, CHR 0xE7, CHR 0x9B, CHR 0xAE, CHR 0xEF, CHR 0xBC, CHR 0x8C, CHR 0xE7, CHR 0xBB, CHR 0x8F,
      CHR 0xE8, CHR 0xBF, CHR 0x87] @ ''32'' @ [CHR 0xE4, CHR 0xB8, CHR 0xAA, CHR 0xE6, CHR 0x9C, CHR 0x88, CHR 0xE7, CHR 0xA0, CHR 0x94, CHR 0xE5, CHR 0x8F, CHR 0x91,
      CHR 0xE6, CHR 0x9E, CHR 0x84, CHR 0xE5, CHR 0xBB, CHR 0xBA, CHR 0xE5, CHR 0xAE, CHR 0x8C, CHR 0xE6, CHR 0x95, CHR 0xB4] @ ''Phone Use'' @ [CHR 0xE8, CHR 0x83, CHR 0xBD, CHR 0xE5, CHR 0x8A, CHR 0x9B, CHR 0xE6, CHR 0xA1, CHR 0x86, CHR 0xE6, CHR 0x9E, CHR 0xB6,
      CHR 0xEF, CHR 0xBC, CHR 0x8C, CHR 0xE4, CHR 0xBD, CHR 0xBF] @ ''AI'' @ [CHR 0xE8, CHR 0x83, CHR 0xBD, CHR 0xE9, CHR 0x80, CHR 0x9A, CHR 0xE8, CHR 0xBF, CHR 0x87, CHR 0xE8, CHR 0xA7, CHR 0x86,
      CHR 0xE8, CHR 0xA7, CHR 0x89, CHR 0xE7, CHR 0x90, CHR 0x86, CHR 0xE8, CHR 0xA7, CHR 0xA3, CHR 0xE6, CHR 0x89, CHR 0x8B,
      CHR 0xE6, CHR 0x9C, CHR 0xBA, CHR 0xE7, CHR 0x95, CHR 0x8C, CHR 0xE9, CHR 0x9D, CHR 0xA2, CHR 0xE5, CHR 0xAE, CHR 0x8C,
      CHR 0xE6, CHR 0x88, CHR 0x90, CHR 0xE7, CHR 0x82, CHR 0xB9, CHR 0xE5, CHR 0x87, CHR 0xBB, CHR 0xE3, CHR 0x80, CHR 0x81,
      CHR 0xE6, CHR 0xBB, CHR 0x91, CHR 0xE5, CHR 0x8A, CHR 0xA8, CHR 0xE7, CHR 0xAD, CHR 0x89, CHR 0xE6, CHR 0x93, CHR 0x8D,
      CHR 0xE4, CHR 0xBD, CHR 0x9C, CHR 0xE3, CHR 0x80, CHR 0x82])),
      (''importance'', JStr ([CHR 0xE9, CHR 0xAB, CHR 0x98])),
      (''source'', JStr ([CHR 0xE6, CHR 0x99, CHR 0xBA, CHR 0xE8, CHR 0xB0, CHR 0xB1] @ ''AI'')),
      (''tags'', JArr [JStr ([CHR 0xE6, CHR 0x99, CHR 0xBA, CHR 0xE8, CHR 0xB0, CHR 0xB1] @ ''AI''), JStr ([CHR 0xE5, CHR 0xBC, CHR 0x80, CHR 0xE6, CHR 0xBA, CHR 0x90]), JStr (''AutoGLM'')])]\<close>

definition demo_domestic_2 :: jsval where
  \<open>demo_domestic_2 = JObj
     [(''index'', JNum 2),
      (''title'', JStr ([CHR 0xE8, CHR 0x9A, CHR 0x82, CHR 0xE8, CHR 0x9A, CHR 0x81, CHR 0xE9, CHR 0x9B, CHR 0x86, CHR 0xE5, CHR 0x9B, CHR 0xA2,
      CHR 0xE6, CHR 0x8E, CHR 0xA8, CHR 0xE5, CHR 0x87, CHR 0xBA, CHR 0xE7, CHR 0x81, CHR 0xB5, CHR 0xE5, CHR 0x85, CHR 0x89,
      CHR 0xE7, CHR 0xBD, CHR 0x91, CHR 0xE9, CHR 0xA1, CHR 0xB5, CHR 0xE7, CHR 0x89, CHR 0x88])),
      (''summary'', JStr (''12'' @ [CHR 0xE6, CHR 0x9C, CHR 0x88] @ ''9'' @ [CHR 0xE6, CHR 0x97, CHR 0xA5, CHR 0xE6, CHR 0xB6, CHR 0x88, CHR 0xE6, CHR 0x81, CHR 0xAF, CHR 0xEF, CHR 0xBC, CHR 0x8C,
      CHR 0xE8, CHR 0x9A, CHR 0x82, CHR 0xE8, CHR 0x9A, CHR 0x81, CHR 0xE9, CHR 0x9B, CHR 0x86, CHR 0xE5, CHR 0x9B, CHR 0xA2,
      CHR 0xE6, CHR 0xAD, CHR 0xA3, CHR 0xE5, CHR 0xBC, CHR 0x8F, CHR 0xE6, CHR 0x8E, CHR 0xA8, CHR 0xE5, CHR 0x87, CHR 0xBA,
      CHR 0xE5, CHR 0x85, CHR 0xA8, CHR 0xE6, CHR 0xA8, CHR 0xA1, CHR 0xE6, CHR 0x80, CHR 0x81, CHR 0xE9, CHR 0x80, CHR 0x9A,
      CHR 0xE7, CHR 0x94, CHR 0xA8] @ ''AI'' @ [CHR 0xE5, CHR 0x8A, CHR 0xA9, CHR 0xE6, CHR 0x89, CHR 0x8B, CHR 0xE7, CHR 0x81, CHR 0xB5, CHR 0xE5, CHR 0x85, CHR 0x89,
      CHR 0xE7, CHR 0xBD, CHR 0x91, CHR 0xE9, CHR 0xA1, CHR 0xB5, CHR 0xE7, CHR 0x89, CHR 0x88, CHR 0xEF, CHR 0xBC, CHR 0x8C,
      CHR 0xE5, CHR 0xBB, CHR 0xB6, CHR 0xE7, CHR 0xBB, CHR 0xAD] @ ''"30'' @ [CHR 0xE7, CHR 0xA7, CHR 0x92, CHR 0xE7, CHR 0x94, CHR 0xA8, CHR 0xE8, CHR 0x87, CHR 0xAA, CHR 0xE7, CHR 0x84, CHR 0xB6,
      CHR 0xE8, CHR 0xAF, CHR 0xAD, CHR 0xE8, CHR 0xA8, CHR 0x80, CHR 0xE7, CHR 0x94, CHR 0x9F, CHR 0xE6, CHR 0x88, CHR 0x90,
      CHR 0xE5, CHR 0xB0, CHR 0x8F, CHR 0xE5, CHR 0xBA, CHR 0x94, CHR 0xE7, CHR 0x94, CHR 0xA8] @ ''"'' @ [CHR 0xE6, CHR 0xA0, CHR 0xB8, CHR 0xE5, CHR 0xBF, CHR 0x83, CHR 0xE4, CHR 0xBC, CHR 0x98, CHR 0xE5, CHR 0x8A, CHR 0xBF,
      CHR 0xE3, CHR 0x80, CHR 0x82])),
      (''importance'', JStr ([CHR 0xE9, CHR 0xAB, CHR 0x98])),
      (''source'', JStr ([CHR 0xE8, CHR 0x9A, CHR 0x82, CHR 0xE8, CHR 0x9A, CHR 0x81, CHR 0xE9, CHR 0x9B, CHR 0x86, CHR 0xE5, CHR 0x9B, CHR 0xA2])),
      (''tags'', JArr [JStr ([CHR 0xE8, CHR 0x9A, CHR 0x82, CHR 0xE8, CHR 0x9A, CHR 0x81, CHR 0xE9, CHR 0x9B, CHR 0x86, CHR 0xE5, CHR 0x9B, CHR 0xA2]), JStr ([CHR 0xE7, CHR 0x81, CHR 0xB5, CHR 0xE5, CHR 0x85, CHR 0x89]), JStr (''AI'' @ [CHR 0xE5, CHR 0x8A, CHR 0xA9, CHR 0xE6, CHR 0x89, CHR 0x8B])])]\<close>

definition demo_domestic :: jsval where
  "demo_domestic = JArr [demo_domestic_1, demo_domestic_2]"

definition demo_international_1 :: jsval where
  \<open>demo_international_1 = JObj
     [(''index'', JNum 1),
      (''title'', JStr ([CHR 0xE7, CHR 0x89, CHR 0xB9, CHR 0xE6, CHR 0x9C, CHR 0x97, CHR 0xE6, CHR 0x99, CHR 0xAE, CHR 0xE5, CHR 0x85, CHR 0x81,
      CHR 0xE8, CHR 0xAE, CHR 0xB8, CHR 0xE8, CHR 0x8B, CHR 0xB1, CHR 0xE4, CHR 0xBC, CHR 0x9F, CHR 0xE8, CHR 0xBE, CHR 0xBE,
      CHR 0xE5, CHR 0x90, CHR 0x91, CHR 0xE4, CHR 0xB8, CHR 0xAD, CHR 0xE5, CHR 0x9B, CHR 0xBD, CHR 0xE5, CHR 0x87, CHR 0xBA,
      CHR 0xE5, CHR 0x94, CHR 0xAE] @ ''H200'' @ [CHR 0xE8, CHR 0x8A, CHR 0xAF, CHR 0xE7, CHR 0x89, CHR 0x87])),
      (''summary'', JStr (''12'' @ [CHR 0xE6, CHR 0x9C, CHR 0x88] @ ''9'' @ [CHR 0xE6, CHR 0x97, CHR 0xA5, CHR 0xE6, CHR 0xB6, CHR 0x88, CHR 0xE6, CHR 0x81, CHR 0xAF, CHR 0xEF, CHR 0xBC, CHR 0x8C,
      CHR 0xE7, CHR 0xBE, CHR 0x8E, CHR 0xE5, CHR 0x9B, CHR 0xBD, CHR 0xE6, CHR 0x80, CHR 0xBB, CHR 0xE7, CHR 0xBB, CHR 0x9F,
      CHR 0xE7, CHR 0x89, CHR 0xB9, CHR 0xE6, CHR 0x9C, CHR 0x97, CHR 0xE6, CHR 0x99, CHR 0xAE, CHR 0xE5, CHR 0xAE, CHR 0xA3,
      CHR 0xE5, CHR 0xB8, CHR 0x83, CHR 0xE5, CHR 0x85, CHR 0x81, CHR 0xE8, CHR 0xAE, CHR 0xB8, CHR 0xE8, CHR 0x8B, CHR 0xB1,
      CHR 0xE4, CHR 0xBC, CHR 0x9F, CHR 0xE8, CHR 0xBE, CHR 0xBE, CHR 0xE5, CHR 0x90, CHR 0x91, CHR 0xE4, CHR 0xB8, CHR 0xAD,
      CHR 0xE5, CHR 0x9B, CHR 0xBD, CHR 0xE5, CHR 0x87, CHR 0xBA, CHR 0xE5, CHR 0x94, CHR 0xAE] @ ''H200'' @ [CHR 0xE4, CHR 0xBA, CHR 0xBA, CHR 0xE5, CHR 0xB7, CHR 0xA5, CHR 0xE6, CHR 0x99, CHR 0xBA, CHR 0xE8, CHR 0x83, CHR 0xBD,
      CHR 0xE8, CHR 0x8A, CHR 0xAF, CHR 0xE7, CHR 0x89, CHR 0x87, CHR 0xEF, CHR 0xBC, CHR 0x8C, CHR 0xE4, CHR 0xBD, CHR 0x86,
      CHR 0xE8, CHR 0xA6, CHR 0x81, CHR 0xE6, CHR 0xB1, CHR 0x82, CHR 0xE8, CHR 0x8B, CHR 0xB1, CHR 0xE4, CHR 0xBC, CHR 0x9F,
      CHR 0xE8, CHR 0xBE, CHR 0xBE, CHR 0xE5, CHR 0xB0, CHR 0x86] @ ''25%'' @ [CHR 0xE7, CHR 0x9A, CHR 0x84, CHR 0xE6, CHR 0x94, CHR 0xB6, CHR 0xE7, CHR 0x9B, CHR 0x8A, CHR 0xE6, CHR 0x94, CHR 0xAF,
      CHR 0xE4, CHR 0xBB, CHR 0x98, CHR 0xE7, CHR 0xBB, CHR 0x99, CHR 0xE7, CHR 0xBE, CHR 0x8E, CHR 0xE5, CHR 0x9B, CHR 0xBD,
      CHR 0xE6, CHR 0x94, CHR 0xBF, CHR 0xE5, CHR 0xBA, CHR 0x9C, CHR 0xE3, CHR 0x80, CHR 0x82])),
      (''importance'', JStr ([CHR 0xE9, CHR 0xAB, CHR 0x98])),
      (''source'', JStr (''Reuters'')),
      (''tags'', JArr [JStr ([CHR 0xE8, CHR 0x8B, CHR 0xB1, CHR 0xE4, CHR 0xBC, CHR 0x9F, CHR 0xE8, CHR 0xBE, CHR 0xBE]), JStr (''AI'' @ [CHR 0xE8, CHR 0x8A, CHR 0xAF, CHR 0xE7, CHR 0x89, CHR 0x87]), JStr ([CHR 0xE6, CHR 0x94, CHR 0xBF, CHR 0xE7, CHR 0xAD, CHR 0x96])])]\<close>

definition demo_international_2 :: jsval where
  \<open>demo_international_2 = JObj
     [(''index'', JNum 2),
      (''title'', JStr (''OpenAI'' @ [CHR 0xE6, CHR 0x8E, CHR 0xA8, CHR 0xE5, CHR 0x87, CHR 0xBA] @ ''o3'' @ [CHR 0xE6, CHR 0x8E, CHR 0xA8, CHR 0xE7, CHR 0x90, CHR 0x86, CHR 0xE6, CHR 0xA8, CHR 0xA1, CHR 0xE5, CHR 0x9E, CHR 0x8B])),
      (''summary'', JStr (''12'' @ [CHR 0xE6, CHR 0x9C, CHR 0x88] @ ''9'' @ [CHR 0xE6, CHR 0x97, CHR 0xA5, CHR 0xE6, CHR 0xB6, CHR 0x88, CHR 0xE6, CHR 0x81, CHR 0xAF, CHR 0xEF, CHR 0xBC, CHR 0x8C] @ ''OpenAI'' @ [CHR 0xE6, CHR 0xAD, CHR 0xA3, CHR 0xE5, CHR 0xBC, CHR 0x8F, CHR 0xE5, CHR 0x8F, CHR 0x91, CHR 0xE5, CHR 0xB8, CHR 0x83] @ ''o3'' @ [CHR 0xE7, CHR 0xB3, CHR 0xBB, CHR 0xE5, CHR 0x88, CHR 0x97, CHR 0xE6, CHR 0x8E, CHR 0xA8, CHR 0xE7, CHR 0x90, CHR 0x86,
      CHR 0xE6, CHR 0xA8, CHR 0xA1, CHR 0xE5, CHR 0x9E, CHR 0x8B, CHR 0xEF, CHR 0xBC, CHR 0x8C, CHR 0xE5, CHR 0x9C, CHR 0xA8,
      CHR 0xE5, CHR 0xA4, CHR 0x8D, CHR 0xE6, CHR 0x9D, CHR 0x82, CHR 0xE6, CHR 0x8E, CHR 0xA8, CHR 0xE7, CHR 0x90, CHR 0x86,
      CHR 0xE4, CHR 0xBB, CHR 0xBB, CHR 0xE5, CHR 0x8A, CHR 0xA1, CHR 0xE4, CHR 0xB8, CHR 0x8A, CHR 0xE8, CHR 0xA1, CHR 0xA8,
      CHR 0xE7, CHR 0x8E, CHR 0xB0, CHR 0xE5, CHR 0x87, CHR 0xBA, CHR 0xE8, CHR 0x89, CHR 0xB2, CHR 0xEF, CHR 0xBC, CHR 0x8C,
      CHR 0xE6, CHR 0x88, CHR 0x90, CHR 0xE4, CHR 0xB8, CHR 0xBA, CHR 0xE7, CHR 0x9B, CHR 0xAE, CHR 0xE5, CHR 0x89, CHR 0x8D,
      CHR 0xE6, CHR 0x9C, CHR 0x80, CHR 0xE5, CHR 0xBC, CHR 0xBA, CHR 0xE5, CHR 0xA4, CHR 0xA7, CHR 0xE7, CHR 0x9A, CHR 0x84] @ ''AI'' @ [CHR 0xE6, CHR 0x8E, CHR 0xA8, CHR 0xE7, CHR 0x90, CHR 0x86, CHR 0xE6, CHR 0xA8, CHR 0xA1, CHR 0xE5, CHR 0x9E, CHR 0x8B,
      CHR 0xE4, CHR 0xB9, CHR 0x8B, CHR 0xE4, CHR 0xB8, CHR 0x80, CHR 0xE3, CHR 0x80, CHR 0x82])),
      (''importance'', JStr ([CHR 0xE9, CHR 0xAB, CHR 0x98])),
      (''source'', JStr (''OpenAI'')),
      (''tags'', JArr [JStr (''OpenAI''), JStr (''o3''), JStr ([CHR 0xE6, CHR 0x8E, CHR 0xA8, CHR 0xE7, CHR 0x90, CHR 0x86, CHR 0xE6, CHR 0xA8, CHR 0xA1, CHR 0xE5, CHR 0x9E, CHR 0x8B])])]\<close>

definition demo_international :: jsval where
  "demo_international = JArr [demo_international_1, demo_international_2]"

definition demo_summary :: string where
  \<open>demo_summary = [CHR 0xE4, CHR 0xBB, CHR 0x8A, CHR 0xE6, CHR 0x97, CHR 0xA5, CHR 0xE5, CHR 0x85, CHR 0xB1, CHR 0xE9, CHR 0x87, CHR 0x87,
      CHR 0xE9, CHR 0x9B, CHR 0x86, CHR 0xE5, CHR 0x88, CHR 0xB0] @ ''5'' @ [CHR 0xE6, CHR 0x9D, CHR 0xA1, CHR 0xE5, CHR 0x9B, CHR 0xBD, CHR 0xE5, CHR 0x86, CHR 0x85, CHR 0xE5, CHR 0x8A, CHR 0xA8,
      CHR 0xE6, CHR 0x80, CHR 0x81, CHR 0xE5, CHR 0x92, CHR 0x8C] @ ''5'' @ [CHR 0xE6, CHR 0x9D, CHR 0xA1, CHR 0xE5, CHR 0x9B, CHR 0xBD, CHR 0xE9, CHR 0x99, CHR 0x85, CHR 0xE5, CHR 0x8A, CHR 0xA8,
      CHR 0xE6, CHR 0x80, CHR 0x81, CHR 0xE3, CHR 0x80, CHR 0x82, CHR 0xE9, CHR 0x87, CHR 0x8D, CHR 0xE7, CHR 0x82, CHR 0xB9,
      CHR 0xE5, CHR 0x85, CHR 0xB3, CHR 0xE6, CHR 0xB3, CHR 0xA8, CHR 0xEF, CHR 0xBC, CHR 0x9A, CHR 0xE6, CHR 0x99, CHR 0xBA,
      CHR 0xE8, CHR 0xB0, CHR 0xB1] @ ''AI'' @ [CHR 0xE5, CHR 0xBC, CHR 0x80, CHR 0xE6, CHR 0xBA, CHR 0x90] @ ''AutoGLM; '' @ [CHR 0xE7, CHR 0x89, CHR 0xB9, CHR 0xE6, CHR 0x9C, CHR 0x97, CHR 0xE6, CHR 0x99, CHR 0xAE, CHR 0xE5, CHR 0x85, CHR 0x81,
      CHR 0xE8, CHR 0xAE, CHR 0xB8] @ ''H200'' @ [CHR 0xE5, CHR 0xAF, CHR 0xB9, CHR 0xE5, CHR 0x8D, CHR 0x8E, CHR 0xE5, CHR 0x87, CHR 0xBA, CHR 0xE5, CHR 0x8F, CHR 0xA3] @ ''; OpenAI'' @ [CHR 0xE5, CHR 0x8F, CHR 0x91, CHR 0xE5, CHR 0xB8, CHR 0x83] @ ''o3'' @ [CHR 0xE6, CHR 0xA8, CHR 0xA1, CHR 0xE5, CHR 0x9E, CHR 0x8B, CHR 0xE3, CHR 0x80, CHR 0x82]\<close>

definition no_summary :: string where
  \<open>no_summary = [CHR 0xE6, CHR 0x9A, CHR 0x82, CHR 0xE6, CHR 0x97, CHR 0xA0, CHR 0xE6, CHR 0x91, CHR 0x98, CHR 0xE8, CHR 0xA6, CHR 0x81]\<close>

definition last_updated_prefix :: string where
  \<open>last_updated_prefix = [CHR 0xE6, CHR 0x9C, CHR 0x80, CHR 0xE5, CHR 0x90, CHR 0x8E, CHR 0xE6, CHR 0x9B, CHR 0xB4, CHR 0xE6, CHR 0x96, CHR 0xB0,
      CHR 0xEF, CHR 0xBC, CHR 0x9A]\<close>

definition unknown_text :: string where
  \<open>unknown_text = [CHR 0xE6, CHR 0x9C, CHR 0xAA, CHR 0xE7, CHR 0x9F, CHR 0xA5]\<close>




definition label_high :: string where
  \<open>label_high = [CHR 0xE9, CHR 0xAB, CHR 0x98, CHR 0xE4, CHR 0xBC, CHR 0x98, CHR 0xE5, CHR 0x85, CHR 0x88, CHR 0xE7, CHR 0xBA, CHR 0xA7]\<close>

definition label_medium :: string where
  \<open>label_medium = [CHR 0xE4, CHR 0xB8, CHR 0xAD, CHR 0xE4, CHR 0xBC, CHR 0x98, CHR 0xE5, CHR 0x85, CHR 0x88, CHR 0xE7, CHR 0xBA, CHR 0xA7]\<close>

definition label_low :: string where
  \<open>label_low = [CHR 0xE4, CHR 0xBD, CHR 0x8E, CHR 0xE4, CHR 0xBC, CHR 0x98, CHR 0xE5, CHR 0x85, CHR 0x88, CHR 0xE7, CHR 0xBA, CHR 0xA7]\<close>

definition loading_html :: string where
  \<open>loading_html = ''<div class="loading">'' @ [CHR 0xE5, CHR 0x8A, CHR 0xA0, CHR 0xE8, CHR 0xBD, CHR 0xBD, CHR 0xE4, CHR 0xB8, CHR 0xAD] @ ''...</div>''\<close>

definition index_missing_msg :: string where
  \<open>index_missing_msg = [CHR 0xE7, CHR 0xB4, CHR 0xA2, CHR 0xE5, CHR 0xBC, CHR 0x95, CHR 0xE6, CHR 0x96, CHR 0x87, CHR 0xE4, CHR 0xBB, CHR 0xB6,
      CHR 0xE4, CHR 0xB8, CHR 0x8D, CHR 0xE5, CHR 0xAD, CHR 0x98, CHR 0xE5, CHR 0x9C, CHR 0xA8]\<close>

definition daily_missing_msg :: string where
  \<open>daily_missing_msg = [CHR 0xE6, CHR 0x95, CHR 0xB0, CHR 0xE6, CHR 0x8D, CHR 0xAE, CHR 0xE6, CHR 0x96, CHR 0x87, CHR 0xE4, CHR 0xBB, CHR 0xB6,
      CHR 0xE4, CHR 0xB8, CHR 0x8D, CHR 0xE5, CHR 0xAD, CHR 0x98, CHR 0xE5, CHR 0x9C, CHR 0xA8]\<close>


section \<open>State of the page\<close>

text \<open>
  A \<^verbatim>\<open>select\<close> element: its options (value and text) and the value it reads back.
  Assigning \<^verbatim>\<open>select.value = v\<close> selects the first option whose value is \<open>v\<close>; when
  there is none, no option is selected and the value reads as the empty string.
\<close>

record select_el =
  sel_options :: "(string \<times> string) list"
  sel_value :: string

definition select_set_value :: "string \<Rightarrow> select_el \<Rightarrow> select_el" where
  "select_set_value v sel =
     sel\<lparr>sel_value := (if v \<in> set (map fst (sel_options sel)) then v else [])\<rparr>"

text \<open>What is handed to the charting library: type, labels, data series (styling left out).\<close>

record dataset =
  ds_label :: "string option"
  ds_data :: "jsval list"

record chart =
  chart_type :: string
  chart_labels :: "string list"
  chart_datasets :: "dataset list"

text \<open>
  The parts of the platform the code calls and the source does not fix: the two date
  formatters (locale and time zone of the browser) and the clock, read once as the
  ISO date of today.
\<close>

record env =
  formatDate :: "jsval \<Rightarrow> string"
  formatDateShort :: "jsval \<Rightarrow> string"
  today :: string

text \<open>
  The global \<^verbatim>\<open>state\<close> object, the DOM slots the code writes, whether the two chart
  canvases exist (the code tests for them), and a trace of the effects: the URLs fetched
  and the number of chart instances destroyed.
\<close>

record state =
  currentDate :: jsval
  dates :: jsval
  statistics :: jsval
  trendChart :: "chart option"
  importanceChart :: "chart option"
  last_updated :: string
  date_select :: select_el
  domestic_news :: string
  international_news :: string
  daily_summary :: string
  trend_canvas :: bool
  importance_canvas :: bool
  requests :: "string list"
  destroyed :: nat

text \<open>
  The outcome of one \<^verbatim>\<open>fetch\<close>: the promise rejects (network error), or a response
  arrives with its \<^verbatim>\<open>ok\<close> flag and the result of \<^verbatim>\<open>response.json()\<close>, \<open>None\<close> when the
  body is not JSON.
\<close>

datatype response = Rejected | Response bool "jsval option"

text \<open>
  A statement that may throw returns the error, if any, with the state as it is at that
  point: what was written before the throw stays written.
\<close>

definition and_then ::
  "error option \<times> state \<Rightarrow> (state \<Rightarrow> error option \<times> state) \<Rightarrow> error option \<times> state" where
  "and_then r f = (case r of (None, s) \<Rightarrow> f s | (Some e, s) \<Rightarrow> (Some e, s))"


section \<open>Operations\<close>

subsection \<open>populateDateSelector\<close>

definition populateDateSelector :: "env \<Rightarrow> state \<Rightarrow> error option \<times> state" where
  "populateDateSelector env st =
     (let st1 = st\<lparr>date_select := \<lparr>sel_options = [], sel_value = []\<rparr>\<rparr>
      in case dates st1 of
           JArr ds \<Rightarrow>
             (let st2 = st1\<lparr>date_select :=
                          \<lparr>sel_options = map (\<lambda>date. (to_string date, formatDate env date)) ds,
                           sel_value = []\<rparr>\<rparr>
              in if length ds > 0
                 then (None, st2\<lparr>date_select := select_set_value (to_string (ds ! 0)) (date_select st2),
                                currentDate := ds ! 0\<rparr>)
                 else (None, st2))
         | _ \<Rightarrow> (Some TypeError, st1))"

subsection \<open>renderNews, showEmptyState\<close>

datatype panel = DomesticNews | InternationalNews

fun set_panel :: "panel \<Rightarrow> string \<Rightarrow> state \<Rightarrow> state" where
  "set_panel DomesticNews h st = st\<lparr>domestic_news := h\<rparr>"
| "set_panel InternationalNews h st = st\<lparr>international_news := h\<rparr>"

definition renderNews :: "panel \<Rightarrow> jsval \<Rightarrow> string \<Rightarrow> state \<Rightarrow> error option \<times> state" where
  "renderNews containerId newsList category st =
     (case news_html newsList category of
        Inl e \<Rightarrow> (Some e, st)
      | Inr h \<Rightarrow> (None, set_panel containerId h st))"

definition emptyHtml :: string where
  \<open>emptyHtml =
     ''\<newline>        <div class="empty-state">\<newline>            <div class="icon">'' @
     [CHR 0xF0, CHR 0x9F, CHR 0x93, CHR 0xAD] @ ''</div>\<newline>            <p>'' @
     [CHR 0xE6, CHR 0x9A, CHR 0x82, CHR 0xE6, CHR 0x97, CHR 0xA0, CHR 0xE6, CHR 0x95, CHR 0xB0,
      CHR 0xE6, CHR 0x8D, CHR 0xAE, CHR 0xEF, CHR 0xBC, CHR 0x8C, CHR 0xE8, CHR 0xAF, CHR 0xB7,
      CHR 0xE7, CHR 0xAD, CHR 0x89, CHR 0xE5, CHR 0xBE, CHR 0x85, CHR 0xE8, CHR 0x87, CHR 0xAA,
      CHR 0xE5, CHR 0x8A, CHR 0xA8, CHR 0xE6, CHR 0x9B, CHR 0xB4, CHR 0xE6, CHR 0x96, CHR 0xB0] @
     ''</p>\<newline>        </div>\<newline>    ''\<close>

definition showEmptyState :: "state \<Rightarrow> state" where
  "showEmptyState st = st\<lparr>domestic_news := emptyHtml, international_news := emptyHtml\<rparr>"

subsection \<open>loadDemoData\<close>

definition demo_statistics :: "string \<Rightarrow> jsval" where
  "demo_statistics t = JObj
     [(''total_days'', JNum 1),
      (''total_domestic'', JNum 5),
      (''total_international'', JNum 5),
      (''by_importance'', JObj [(key_high, JNum 4), (key_medium, JNum 4), (key_low, JNum 2)]),
      (''by_date'', JArr [JObj [(''date'', JStr t), (''domestic'', JNum 5), (''international'', JNum 5)]])]"

definition loadDemoData :: "env \<Rightarrow> state \<Rightarrow> error option \<times> state" where
  "loadDemoData env st =
     and_then (and_then (and_then
       (populateDateSelector env
          (st\<lparr>dates := JArr [JStr (today env)], statistics := demo_statistics (today env)\<rparr>))
       (renderNews DomesticNews demo_domestic cat_domestic))
       (renderNews InternationalNews demo_international cat_international))
       (\<lambda>s. (None, s\<lparr>daily_summary := demo_summary\<rparr>))"

subsection \<open>loadIndex\<close>

definition index_url :: string where
  "index_url = ''../data'' @ ''/'' @ ''index.json''"

text \<open>The body of the \<^verbatim>\<open>try\<close> block, after the fetch has been issued.\<close>

definition loadIndex_try :: "env \<Rightarrow> response \<Rightarrow> state \<Rightarrow> error option \<times> state" where
  "loadIndex_try env resp st =
     (case resp of
        Rejected \<Rightarrow> (Some FetchRejected, st)
      | Response ok body \<Rightarrow>
          if \<not> ok then (Some (Error index_missing_msg), st)
          else (case body of
                  None \<Rightarrow> (Some SyntaxError, st)
                | Some data \<Rightarrow>
                    if nullish data then (Some TypeError, st)
                    else populateDateSelector env
                           (st\<lparr>dates := js_or (js_get data ''dates'') (JArr []),
                               statistics := js_or (js_get data ''statistics'') (JObj []),
                               last_updated := last_updated_prefix @
                                 to_string (js_or (js_get data ''last_updated'') (JStr unknown_text))\<rparr>)))"

text \<open>
  \<open>loadIndex\<close> issues one fetch; whatever the \<^verbatim>\<open>try\<close> block throws is caught and
  \<open>loadDemoData\<close> runs on the state as the block left it.
\<close>

definition loadIndex :: "env \<Rightarrow> response \<Rightarrow> state \<Rightarrow> error option \<times> state" where
  "loadIndex env resp st =
     (case loadIndex_try env resp (st\<lparr>requests := requests st @ [index_url]\<rparr>) of
        (None, s) \<Rightarrow> (None, s)
      | (Some e, s) \<Rightarrow> loadDemoData env s)"

subsection \<open>loadDailyNews\<close>

definition daily_url :: "jsval \<Rightarrow> string" where
  "daily_url date = ''../data'' @ ''/'' @ ''daily'' @ ''/'' @ to_string date @ ''.json''"

text \<open>Up to the point where the fetch is in flight.\<close>

definition loadDailyNews_start :: "jsval \<Rightarrow> state \<Rightarrow> state" where
  "loadDailyNews_start date st =
     st\<lparr>currentDate := date,
        date_select := select_set_value (to_string date) (date_select st),
        domestic_news := loading_html,
        international_news := loading_html,
        requests := requests st @ [daily_url date]\<rparr>"

text \<open>The rest of the \<^verbatim>\<open>try\<close> block, once the fetch has settled.\<close>

definition loadDailyNews_try :: "response \<Rightarrow> state \<Rightarrow> error option \<times> state" where
  "loadDailyNews_try resp st =
     (case resp of
        Rejected \<Rightarrow> (Some FetchRejected, st)
      | Response ok body \<Rightarrow>
          if \<not> ok then (Some (Error daily_missing_msg), st)
          else (case body of
                  None \<Rightarrow> (Some SyntaxError, st)
                | Some data \<Rightarrow>
                    if nullish data then (Some TypeError, st)
                    else and_then (and_then
                           (renderNews DomesticNews
                              (js_or (js_get data ''domestic'') (JArr [])) cat_domestic st)
                           (renderNews InternationalNews
                              (js_or (js_get data ''international'') (JArr [])) cat_international))
                           (\<lambda>s. (None, s\<lparr>daily_summary :=
                                   to_string (js_or (js_get data ''summary'') (JStr no_summary))\<rparr>))))"

definition loadDailyNews_finish :: "response \<Rightarrow> state \<Rightarrow> state" where
  "loadDailyNews_finish resp st =
     (case loadDailyNews_try resp st of
        (None, s) \<Rightarrow> s
      | (Some e, s) \<Rightarrow> showEmptyState s)"

definition loadDailyNews :: "jsval \<Rightarrow> response \<Rightarrow> state \<Rightarrow> state" where
  "loadDailyNews date resp st =
     (if \<not> truthy date then st
      else loadDailyNews_finish resp (loadDailyNews_start date st))"

subsection \<open>Charts\<close>





definition importance_config :: "jsval \<Rightarrow> chart" where
  "importance_config stats =
     (let byImportance = js_or (get_opt stats ''by_importance'')
                           (JObj [(key_high, JNum 0), (key_medium, JNum 0), (key_low, JNum 0)])
      in \<lparr>chart_type = ''doughnut'',
          chart_labels = [label_high, label_medium, label_low],
          chart_datasets =
            [\<lparr>ds_label = None,
              ds_data = [js_or (js_get byImportance key_high) (JNum 0),
                         js_or (js_get byImportance key_medium) (JNum 0),
                         js_or (js_get byImportance key_low) (JNum 0)]\<rparr>]\<rparr>)"

definition initImportanceChart :: "state \<Rightarrow> state" where
  "initImportanceChart st =
     (if \<not> importance_canvas st then st
      else st\<lparr>destroyed := (if importanceChart st \<noteq> None then destroyed st + 1
                               else destroyed st),
              importanceChart := Some (importance_config (statistics st))\<rparr>)"


text \<open>The values of the data series of a chart, one list per series, in order.\<close>

definition chart_series :: "chart \<Rightarrow> jsval list list" where
  "chart_series c = map ds_data (chart_datasets c)"


subsection \<open>Previous and next\<close>

text \<open>
  \<^verbatim>\<open>xs.indexOf(v)\<close>: the first index whose entry is strictly equal to \<open>v\<close>, or -1.
  Strict equality is equality of values for strings, numbers, booleans and null.
\<close>

fun js_indexOf :: "jsval list \<Rightarrow> jsval \<Rightarrow> int" where
  "js_indexOf [] v = - 1"
| "js_indexOf (x # xs) v =
     (if x = v then 0
      else (let i = js_indexOf xs v in if i < 0 then - 1 else i + 1))"



section \<open>Sample inputs\<close>

text \<open>Concrete items and states on which the theorems below are instantiated.\<close>

definition sample_script_item :: jsval where
  "sample_script_item = JObj
     [(''index'', JNum 1),
      (''title'', JStr ''<script>alert(1)</script>''),
      (''summary'', JStr ''1 < 2 & 3 > 2''),
      (''importance'', JStr key_high),
      (''source'', JStr ''wire'')]"

definition sample_plain_item :: jsval where
  "sample_plain_item = JObj [(''index'', JNum 7), (''title'', JStr ''Launch'')]"

definition sample_tag_item :: jsval where
  "sample_tag_item = JObj
     [(''index'', JNum 2),
      (''title'', JStr ''Tagged''),
      (''source'', JStr ''a<b''),
      (''tags'', JArr [JStr ''AI'', JStr ''<script>alert(1)</script>''])]"

text \<open>The global \<^verbatim>\<open>state\<close> as the script declares it, on a page with both canvases.\<close>

definition init_state :: state where
  "init_state =
     \<lparr>currentDate = JNull, dates = JArr [], statistics = JNull,
      trendChart = None, importanceChart = None,
      last_updated = [], date_select = \<lparr>sel_options = [], sel_value = []\<rparr>,
      domestic_news = [], international_news = [], daily_summary = [],
      trend_canvas = True, importance_canvas = True,
      requests = [], destroyed = 0\<rparr>"

definition sample_env :: env where
  "sample_env = \<lparr>formatDate = to_string, formatDateShort = to_string, today = ''2025-12-09''\<rparr>"



section \<open>Properties of the renderer\<close>

subsection \<open>Fragments inside fragments\<close>

lemma sublist_skip: "sublist x b \<Longrightarrow> sublist x (a @ b)"
  unfolding sublist_def by (metis append_assoc)

lemma sublist_here3: "sublist (a @ b @ c) (a @ b @ c @ r)"
  by (metis append_assoc sublist_append_rightI)

lemma sublist_here5: "sublist (a @ b @ c @ d @ e) (a @ b @ c @ d @ e @ r)"
  by (metis append_assoc sublist_append_rightI)

lemma sublist_here1: "sublist b (b @ r)"
  by (rule sublist_append_rightI)

lemma sublist_trans: "sublist a b \<Longrightarrow> sublist b c \<Longrightarrow> sublist a c"
  unfolding sublist_def by (metis append_assoc)

lemma item_html_title:
  \<open>sublist (''<h4 class="news-title">'' @ escapeHtml (js_or (js_get news ''title'') (JStr [])) @ ''</h4>'')
     (item_html news tags)\<close>
  unfolding item_html_def Let_def
  by (rule sublist_here3 | rule sublist_skip)+

lemma item_html_summary:
  \<open>sublist (''<p class="news-summary">'' @ escapeHtml (js_or (js_get news ''summary'') (JStr [])) @ ''</p>'')
     (item_html news tags)\<close>
  unfolding item_html_def Let_def
  by (rule sublist_here3 | rule sublist_skip)+

lemma item_html_badge:
  \<open>sublist (''<span class="importance-badge '' @ getImportanceClass (js_get news ''importance'') @ ''">'')
     (item_html news tags)\<close>
  unfolding item_html_def Let_def
  by (rule sublist_here3 | rule sublist_skip)+

lemma item_html_tags:
  assumes \<open>tags \<noteq> []\<close>
  shows \<open>sublist (''<div class="news-tags">'' @ tags @ ''</div>'') (item_html news tags)\<close>
  unfolding item_html_def Let_def
  by (simp only: assms not_False_eq_True if_True) (rule sublist_here1 | rule sublist_skip)+

lemma item_html_source:
  \<open>sublist (''<span>'' @ [CHR 0xF0, CHR 0x9F, CHR 0x93, CHR 0xB0] @ '' '' @
             escapeHtml (js_or (js_get news ''source'') (JStr ''N/A'')) @ ''</span>'')
     (item_html news tags)\<close>
  unfolding item_html_def Let_def
  by (rule sublist_here5 | rule sublist_skip)+

lemma render_item_Inr:
  "render_item news = Inr html \<Longrightarrow>
     \<not> nullish news \<and>
     (\<exists>tags. render_tags (js_get news ''tags'') = Inr tags \<and> html = item_html news tags)"
  by (auto simp: render_item_def get_prop_def split: sum.splits if_splits)

lemma render_items_sublist:
  "render_items ns = Inr hs \<Longrightarrow> news \<in> set ns \<Longrightarrow>
     \<exists>h. render_item news = Inr h \<and> sublist h (concat hs)"
proof (induction ns arbitrary: hs)
  case Nil
  then show ?case by simp
next
  case (Cons n ns)
  from Cons.prems(1) obtain h hs'
    where h: "render_item n = Inr h" "render_items ns = Inr hs'" "hs = h # hs'"
    by (auto split: sum.splits)
  show ?case
  proof (cases "news = n")
    case True
    then show ?thesis using h by (auto intro: sublist_here1)
  next
    case False
    with Cons.prems(2) have "news \<in> set ns" by simp
    from Cons.IH[OF h(2) this] obtain k
      where "render_item news = Inr k" "sublist k (concat hs')" by blast
    then show ?thesis using h(3) by (auto intro: sublist_skip)
  qed
qed

lemma news_html_item:
  "news_html (JArr ns) category = Inr page \<Longrightarrow> news \<in> set ns \<Longrightarrow>
     \<exists>h. render_item news = Inr h \<and> sublist h page"
  by (auto simp: news_html_def split: if_splits sum.splits dest: render_items_sublist)

text \<open>
  The renderer returns a panel for every list whose items are not null and whose
  \<open>tags\<close>, when present, are arrays: this is every list of the data model's items.
\<close>

lemma render_item_total:
  assumes "\<not> nullish news"
    and "\<not> truthy (js_get news ''tags'') \<or> (\<exists>ts. js_get news ''tags'' = JArr ts)"
  shows "\<exists>h. render_item news = Inr h"
  using assms by (auto simp: render_item_def get_prop_def render_tags_def js_or_def)

lemma render_items_total:
  "(\<forall>n\<in>set ns. \<exists>h. render_item n = Inr h) \<Longrightarrow> \<exists>hs. render_items ns = Inr hs"
proof (induction ns)
  case Nil
  then show ?case by simp
next
  case (Cons n ns)
  then obtain h hs where "render_item n = Inr h" "render_items ns = Inr hs" by auto
  then show ?case by simp
qed

lemma news_html_total:
  assumes "\<forall>n\<in>set ns. \<not> nullish n \<and>
             (\<not> truthy (js_get n ''tags'') \<or> (\<exists>ts. js_get n ''tags'' = JArr ts))"
  shows "\<exists>page. news_html (JArr ns) category = Inr page"
proof -
  from assms have "\<forall>n\<in>set ns. \<exists>h. render_item n = Inr h"
    by (blast intro: render_item_total)
  from render_items_total[OF this] obtain hs where "render_items ns = Inr hs" ..
  then show ?thesis by (simp add: news_html_def)
qed

subsection \<open>What the escaping leaves\<close>

lemma serialize_text_no_lt: "CHR ''<'' \<notin> set (serialize_text s)"
proof (induction s rule: serialize_text.induct)
  case 1
  then show ?case by simp
next
  case (2 c cs)
  then show ?case
    by (cases cs) simp_all
qed

lemma serialize_text_no_gt: "CHR ''>'' \<notin> set (serialize_text s)"
proof (induction s rule: serialize_text.induct)
  case 1
  then show ?case by simp
next
  case (2 c cs)
  then show ?case
    by (cases cs) simp_all
qed

lemma serialize_text_append:
  "x \<noteq> CHR 0xA0 \<Longrightarrow> serialize_text (a @ x # b) = serialize_text a @ serialize_text (x # b)"
proof (induction a rule: serialize_text.induct)
  case 1
  then show ?case by simp
next
  case (2 c cs)
  then show ?case
    by (cases cs) simp_all
qed

lemma serialize_text_script:
  assumes "sublist ''<script>'' t"
  shows "sublist ''&lt;script&gt;'' (serialize_text t)"
proof -
  from assms obtain a b where "t = a @ ''<script>'' @ b"
    by (auto simp: sublist_def)
  then have "serialize_text t =
      serialize_text a @ serialize_text (CHR ''<'' # (''script>'' @ b))"
    using serialize_text_append[of "CHR ''<''" a "''script>'' @ b"] by simp
  also have "\<dots> = serialize_text a @ ''&lt;script&gt;'' @ serialize_text b"
    by simp
  finally show ?thesis by (metis sublist_appendI)
qed

lemma escapeHtml_no_markup:
  "CHR ''<'' \<notin> set (escapeHtml v) \<and> CHR ''>'' \<notin> set (escapeHtml v)"
  by (simp add: escapeHtml_def serialize_text_no_lt serialize_text_no_gt)

lemma sublist_concat_member: "x \<in> set xs \<Longrightarrow> sublist (f x) (concat (map f xs))"
proof (induction xs)
  case Nil
  then show ?case by simp
next
  case (Cons y ys)
  then show ?case by (auto intro: sublist_here1 sublist_skip)
qed

lemma render_tags_member:
  assumes "render_tags (JArr ts) = Inr tags" and "t \<in> set ts"
  shows "sublist (render_tag t) tags \<and> tags \<noteq> []"
proof -
  from assms(1) have tags: "tags = concat (map render_tag ts)"
    by (simp add: render_tags_def js_or_def)
  with assms(2) have s: "sublist (render_tag t) tags"
    by (simp add: sublist_concat_member)
  have "render_tag t \<noteq> []" by (simp add: render_tag_def)
  with s show ?thesis by auto
qed

section \<open>Claims about the renderer\<close>

text \<open>
  C2. Whenever the renderer produces a panel for a list of items, the panel contains, for
  every item of the list, the escaped title inside the title heading and the escaped
  summary inside the summary paragraph. The escaped text holds neither \<^verbatim>\<open><\<close> nor
  \<^verbatim>\<open>>\<close>, so no title or summary can open an element; a title that contains
  \<^verbatim>\<open><script>\<close> appears as \<^verbatim>\<open>&lt;script&gt;\<close>.
\<close>

theorem title_summary_escaped:
  assumes \<open>news_html (JArr ns) category = Inr page\<close> and \<open>news \<in> set ns\<close>
  shows \<open>sublist (''<h4 class="news-title">'' @
                    escapeHtml (js_or (js_get news ''title'') (JStr [])) @ ''</h4>'') page
        \<and> sublist (''<p class="news-summary">'' @
                    escapeHtml (js_or (js_get news ''summary'') (JStr [])) @ ''</p>'') page
        \<and> CHR ''<'' \<notin> set (escapeHtml (js_or (js_get news ''title'') (JStr [])))
        \<and> CHR ''>'' \<notin> set (escapeHtml (js_or (js_get news ''title'') (JStr [])))
        \<and> CHR ''<'' \<notin> set (escapeHtml (js_or (js_get news ''summary'') (JStr [])))
        \<and> CHR ''>'' \<notin> set (escapeHtml (js_or (js_get news ''summary'') (JStr [])))
        \<and> (\<forall>t. js_get news ''title'' = JStr t \<and> sublist ''<script>'' t \<longrightarrow>
               sublist ''&lt;script&gt;'' (escapeHtml (js_or (js_get news ''title'') (JStr []))))\<close>
proof -
  from news_html_item[OF assms] obtain h where h: "render_item news = Inr h" "sublist h page"
    by blast
  from render_item_Inr[OF h(1)] obtain tags where t: "h = item_html news tags" by blast
  have 1: \<open>sublist (''<h4 class="news-title">'' @
                    escapeHtml (js_or (js_get news ''title'') (JStr [])) @ ''</h4>'') page\<close>
    using item_html_title[of news tags] h(2) t by (blast intro: sublist_trans)
  have 2: \<open>sublist (''<p class="news-summary">'' @
                    escapeHtml (js_or (js_get news ''summary'') (JStr [])) @ ''</p>'') page\<close>
    using item_html_summary[of news tags] h(2) t by (blast intro: sublist_trans)
  have 3: \<open>\<forall>t. js_get news ''title'' = JStr t \<and> sublist ''<script>'' t \<longrightarrow>
               sublist ''&lt;script&gt;'' (escapeHtml (js_or (js_get news ''title'') (JStr [])))\<close>
  proof (intro allI impI)
    fix t assume a: \<open>js_get news ''title'' = JStr t \<and> sublist ''<script>'' t\<close>
    then have "t \<noteq> []" by auto
    with a show \<open>sublist ''&lt;script&gt;'' (escapeHtml (js_or (js_get news ''title'') (JStr [])))\<close>
      by (simp add: escapeHtml_def js_or_def serialize_text_script)
  qed
  from 1 2 3 escapeHtml_no_markup show ?thesis by blast
qed

theorem title_summary_escaped_witness:
  \<open>\<exists>page. news_html (JArr [sample_script_item]) cat_domestic = Inr page
      \<and> sublist ''<h4 class="news-title">&lt;script&gt;alert(1)&lt;/script&gt;</h4>'' page
      \<and> sublist ''<p class="news-summary">1 &lt; 2 &amp; 3 &gt; 2</p>'' page
      \<and> \<not> sublist ''<script'' page\<close>
proof -
  obtain page where p: \<open>news_html (JArr [sample_script_item]) cat_domestic = Inr page\<close>
    by (simp add: news_html_def sample_script_item_def render_item_def get_prop_def
        render_tags_def js_or_def)
  have t: \<open>escapeHtml (js_or (js_get sample_script_item ''title'') (JStr [])) =
            ''&lt;script&gt;alert(1)&lt;/script&gt;''\<close>
    by (simp add: sample_script_item_def js_or_def escapeHtml_def)
  have s: \<open>escapeHtml (js_or (js_get sample_script_item ''summary'') (JStr [])) =
            ''1 &lt; 2 &amp; 3 &gt; 2''\<close>
    by (simp add: sample_script_item_def js_or_def escapeHtml_def)
  have \<open>\<not> sublist ''<script''
            (case news_html (JArr [sample_script_item]) cat_domestic of Inr h \<Rightarrow> h | Inl e \<Rightarrow> [])\<close>
    by (simp add: news_html_def sample_script_item_def render_item_def get_prop_def
        render_tags_def js_or_def item_html_def getImportanceClass_def key_high_def
        escapeHtml_def show_int_def show_nat.simps digit_char_def sublist_Cons_right)
  then have n: \<open>\<not> sublist ''<script'' page\<close>
    unfolding p by simp
  from title_summary_escaped[OF p, of sample_script_item] p t s n
  show ?thesis by simp
qed

text \<open>
  C9. An item whose \<open>importance\<close> is absent (the read gives undefined) or is none of the
  three recognised values gets the class \<^verbatim>\<open>medium\<close>, and the badge of its rendered
  fragment carries that class.
\<close>

theorem badge_class_defaults_to_medium:
  assumes \<open>js_get news ''importance'' \<notin> {JStr key_high, JStr key_medium, JStr key_low}\<close>
    and \<open>news_html (JArr ns) category = Inr page\<close>
    and \<open>news \<in> set ns\<close>
  shows \<open>getImportanceClass (js_get news ''importance'') = ''medium''
       \<and> sublist ''<span class="importance-badge medium">'' page\<close>
proof -
  from assms(1) have c: \<open>getImportanceClass (js_get news ''importance'') = ''medium''\<close>
    by (simp add: getImportanceClass_def)
  from news_html_item[OF assms(2,3)] obtain h where h: "render_item news = Inr h" "sublist h page"
    by blast
  from render_item_Inr[OF h(1)] obtain tags where t: "h = item_html news tags" by blast
  have \<open>sublist (''<span class="importance-badge '' @ ''medium'' @ ''">'') h\<close>
    using item_html_badge[of news tags] c t by simp
  then have \<open>sublist ''<span class="importance-badge medium">'' h\<close> by simp
  with h(2) c show ?thesis by (blast intro: sublist_trans)
qed

theorem badge_class_defaults_to_medium_witness:
  \<open>js_get sample_plain_item ''importance'' = JUndefined
   \<and> (\<exists>page. news_html (JArr [sample_plain_item]) cat_domestic = Inr page
         \<and> sublist ''<span class="importance-badge medium">'' page)\<close>
proof -
  have a: \<open>js_get sample_plain_item ''importance'' = JUndefined\<close>
    by (simp add: sample_plain_item_def)
  then have b: \<open>js_get sample_plain_item ''importance'' \<notin> {JStr key_high, JStr key_medium, JStr key_low}\<close>
    by simp
  obtain page where p: \<open>news_html (JArr [sample_plain_item]) cat_domestic = Inr page\<close>
    by (simp add: news_html_def sample_plain_item_def render_item_def get_prop_def
        render_tags_def js_or_def)
  from badge_class_defaults_to_medium[OF b p] a p show ?thesis by simp
qed

text \<open>
  C10. Every tag string of an item is put into the fragment as it is, between the tag span's
  opening and closing text, with no escaping; the source of the same item is escaped.
  The instance below has a tag that is a script element, and the panel holds it verbatim.
\<close>

theorem tags_not_escaped:
  assumes \<open>news_html (JArr ns) category = Inr page\<close>
    and \<open>news \<in> set ns\<close>
    and \<open>js_get news ''tags'' = JArr ts\<close>
    and \<open>JStr t \<in> set ts\<close>
  shows \<open>sublist (''<span class="tag">'' @ t @ ''</span>'') page
       \<and> sublist (''<span>'' @ [CHR 0xF0, CHR 0x9F, CHR 0x93, CHR 0xB0] @ '' '' @
             escapeHtml (js_or (js_get news ''source'') (JStr ''N/A'')) @ ''</span>'') page\<close>
proof -
  from news_html_item[OF assms(1,2)] obtain h where h: "render_item news = Inr h" "sublist h page"
    by blast
  from render_item_Inr[OF h(1)] assms(3) obtain tags
    where t: "render_tags (JArr ts) = Inr tags" "h = item_html news tags" by auto
  from render_tags_member[OF t(1) assms(4)]
  have m: "sublist (render_tag (JStr t)) tags" "tags \<noteq> []" by simp_all
  have \<open>sublist tags (''<div class="news-tags">'' @ tags @ ''</div>'')\<close>
    by (rule sublist_appendI)
  with item_html_tags[OF m(2), of news] have "sublist tags h"
    using t(2) by (blast intro: sublist_trans)
  with m(1) h(2) have "sublist (render_tag (JStr t)) page"
    by (blast intro: sublist_trans)
  moreover have \<open>sublist (''<span>'' @ [CHR 0xF0, CHR 0x9F, CHR 0x93, CHR 0xB0] @ '' '' @
             escapeHtml (js_or (js_get news ''source'') (JStr ''N/A'')) @ ''</span>'') page\<close>
    using item_html_source[of news tags] t(2) h(2) by (blast intro: sublist_trans)
  ultimately show ?thesis by (simp add: render_tag_def)
qed

theorem tags_not_escaped_witness:
  \<open>\<exists>page. news_html (JArr [sample_tag_item]) cat_domestic = Inr page
      \<and> sublist ''<span class="tag"><script>alert(1)</script></span>'' page
      \<and> sublist (''<span>'' @ [CHR 0xF0, CHR 0x9F, CHR 0x93, CHR 0xB0] @ '' a&lt;b</span>'') page\<close>
proof -
  obtain page where p: \<open>news_html (JArr [sample_tag_item]) cat_domestic = Inr page\<close>
    by (simp add: news_html_def sample_tag_item_def render_item_def get_prop_def
        render_tags_def js_or_def)
  have g: \<open>js_get sample_tag_item ''tags'' = JArr [JStr ''AI'', JStr ''<script>alert(1)</script>'']\<close>
    by (simp add: sample_tag_item_def)
  have s: \<open>escapeHtml (js_or (js_get sample_tag_item ''source'') (JStr ''N/A'')) = ''a&lt;b''\<close>
    by (simp add: sample_tag_item_def js_or_def escapeHtml_def)
  from tags_not_escaped[OF p _ g, where t = "''<script>alert(1)</script>''"] p s
  show ?thesis by simp
qed

section \<open>Properties of the charts\<close>

lemma keys_distinct:
  "key_high \<noteq> key_medium" "key_high \<noteq> key_low" "key_medium \<noteq> key_low"
  "key_medium \<noteq> key_high" "key_low \<noteq> key_high" "key_low \<noteq> key_medium"
  by (simp_all add: key_high_def key_medium_def key_low_def)







text \<open>
  C5. With \<open>by_importance\<close> holding 4, 4 and 2 under the three importance keys (the
  specification's high, medium and low are the keys U+9AD8, U+4E2D and U+4F4E of the data
  files) the importance chart's series is exactly 4, 4, 2; for every \<open>by_importance\<close>
  object each key that is missing contributes 0, and so does every key when
  \<open>by_importance\<close> itself is missing.
\<close>

theorem importance_chart_values:
  assumes "importance_canvas st"
  shows "importanceChart (initImportanceChart st) = Some (importance_config (statistics st))
       \<and> (get_opt (statistics st) ''by_importance'' =
             JObj [(key_high, JNum 4), (key_medium, JNum 4), (key_low, JNum 2)] \<longrightarrow>
           chart_series (importance_config (statistics st)) = [[JNum 4, JNum 4, JNum 2]])
       \<and> (\<forall>kvs. get_opt (statistics st) ''by_importance'' = JObj kvs \<longrightarrow>
           chart_series (importance_config (statistics st)) =
             [map (\<lambda>k. case map_of kvs k of None \<Rightarrow> JNum 0 | Some v \<Rightarrow> js_or v (JNum 0))
                  [key_high, key_medium, key_low]])
       \<and> (\<not> truthy (get_opt (statistics st) ''by_importance'') \<longrightarrow>
           chart_series (importance_config (statistics st)) = [[JNum 0, JNum 0, JNum 0]])"
  using assms
  by (auto simp: initImportanceChart_def importance_config_def chart_series_def js_or_def
      keys_distinct split: option.splits)

theorem importance_chart_values_witness:
  "chart_series (importance_config (demo_statistics ''2025-12-09'')) = [[JNum 4, JNum 4, JNum 2]]
   \<and> importanceChart (initImportanceChart
        (init_state\<lparr>statistics := JObj [(''by_importance'', JObj [(key_low, JNum 3)])]\<rparr>))
      = Some (importance_config (JObj [(''by_importance'', JObj [(key_low, JNum 3)])]))
   \<and> chart_series (importance_config (JObj [(''by_importance'', JObj [(key_low, JNum 3)])]))
      = [[JNum 0, JNum 0, JNum 3]]"
proof -
  let ?s1 = "init_state\<lparr>statistics := demo_statistics ''2025-12-09''\<rparr>"
  let ?s2 = "init_state\<lparr>statistics := JObj [(''by_importance'', JObj [(key_low, JNum 3)])]\<rparr>"
  have c1: "importance_canvas ?s1" and c2: "importance_canvas ?s2"
    by (simp_all add: init_state_def)
  have g1: "get_opt (statistics ?s1) ''by_importance'' =
             JObj [(key_high, JNum 4), (key_medium, JNum 4), (key_low, JNum 2)]"
    by (simp add: get_opt_def demo_statistics_def)
  have g2: "get_opt (statistics ?s2) ''by_importance'' = JObj [(key_low, JNum 3)]"
    by (simp add: get_opt_def)
  from importance_chart_values[OF c1] g1 importance_chart_values[OF c2] g2
  show ?thesis by (simp add: keys_distinct js_or_def)
qed

section \<open>Properties of the index loader\<close>

lemma populate_array:
  "dates st = JArr ds \<Longrightarrow>
   populateDateSelector env st =
     (None,
      if ds = [] then
        st\<lparr>date_select := \<lparr>sel_options = [], sel_value = []\<rparr>\<rparr>
      else
        st\<lparr>date_select :=
              \<lparr>sel_options = map (\<lambda>date. (to_string date, formatDate env date)) ds,
               sel_value = to_string (ds ! 0)\<rparr>,
           currentDate := ds ! 0\<rparr>)"
  by (cases ds) (auto simp: populateDateSelector_def select_set_value_def)







lemma render_demo_domestic_1:
  "\<exists>h. render_item demo_domestic_1 = Inr h"
  by (simp add: render_item_def get_prop_def demo_domestic_1_def render_tags_def js_or_def)

lemma render_demo_domestic_2:
  "\<exists>h. render_item demo_domestic_2 = Inr h"
  by (simp add: render_item_def get_prop_def demo_domestic_2_def render_tags_def js_or_def)

lemma render_demo_international_1:
  "\<exists>h. render_item demo_international_1 = Inr h"
  by (simp add: render_item_def get_prop_def demo_international_1_def render_tags_def js_or_def)

lemma render_demo_international_2:
  "\<exists>h. render_item demo_international_2 = Inr h"
  by (simp add: render_item_def get_prop_def demo_international_2_def render_tags_def js_or_def)

lemma news_html_pair:
  assumes "render_item a = Inr h1" and "render_item b = Inr h2"
  shows "news_html (JArr [a, b]) category = Inr (h1 @ h2)"
  using assms by (simp add: news_html_def)

lemma loadDemoData_result:
  assumes "render_item demo_domestic_1 = Inr h1" "render_item demo_domestic_2 = Inr h2"
    "render_item demo_international_1 = Inr k1" "render_item demo_international_2 = Inr k2"
  shows "loadDemoData env st =
    (None, st\<lparr>dates := JArr [JStr (today env)],
              statistics := demo_statistics (today env),
              date_select := \<lparr>sel_options = [(today env, formatDate env (JStr (today env)))],
                              sel_value = today env\<rparr>,
              currentDate := JStr (today env),
              domestic_news := h1 @ h2,
              international_news := k1 @ k2,
              daily_summary := demo_summary\<rparr>)"
  unfolding loadDemoData_def demo_domestic_def demo_international_def
  by (simp add: populate_array and_then_def renderNews_def
      news_html_pair[OF assms(1,2)] news_html_pair[OF assms(3,4)])

lemma loadIndex_failure:
  assumes "resp = Rejected \<or> resp = Response False body \<or> resp = Response True None"
  shows "loadIndex env resp st = loadDemoData env (st\<lparr>requests := requests st @ [index_url]\<rparr>)"
  using assms by (auto simp: loadIndex_def loadIndex_try_def)

text \<open>
  C6. When the manifest fetch fails (the request is rejected, the status is not a success,
  or the body is not JSON) the loader runs \<open>loadDemoData\<close> and completes: \<open>dates\<close> holds
  exactly today's date, which is also the only option of the selector and the current date,
  the statistics are the demo statistics, each panel holds the fragments of its two demo
  items, and the manifest was requested once, with no second attempt.
\<close>

theorem index_failure_loads_demo:
  assumes "resp = Rejected \<or> resp = Response False body \<or> resp = Response True None"
  shows "fst (loadIndex env resp st) = None
       \<and> dates (snd (loadIndex env resp st)) = JArr [JStr (today env)]
       \<and> currentDate (snd (loadIndex env resp st)) = JStr (today env)
       \<and> map fst (sel_options (date_select (snd (loadIndex env resp st)))) = [today env]
       \<and> statistics (snd (loadIndex env resp st)) = demo_statistics (today env)
       \<and> news_html demo_domestic cat_domestic = Inr (domestic_news (snd (loadIndex env resp st)))
       \<and> news_html demo_international cat_international =
            Inr (international_news (snd (loadIndex env resp st)))
       \<and> (\<exists>h1 h2. render_item demo_domestic_1 = Inr h1 \<and> render_item demo_domestic_2 = Inr h2
             \<and> domestic_news (snd (loadIndex env resp st)) = h1 @ h2)
       \<and> (\<exists>k1 k2. render_item demo_international_1 = Inr k1
             \<and> render_item demo_international_2 = Inr k2
             \<and> international_news (snd (loadIndex env resp st)) = k1 @ k2)
       \<and> daily_summary (snd (loadIndex env resp st)) = demo_summary
       \<and> requests (snd (loadIndex env resp st)) = requests st @ [index_url]"
proof -
  obtain h1 h2 k1 k2 where r:
    "render_item demo_domestic_1 = Inr h1" "render_item demo_domestic_2 = Inr h2"
    "render_item demo_international_1 = Inr k1" "render_item demo_international_2 = Inr k2"
    using render_demo_domestic_1 render_demo_domestic_2
      render_demo_international_1 render_demo_international_2 by blast
  show ?thesis
    unfolding loadIndex_failure[OF assms] loadDemoData_result[OF r]
    using r
    by (simp add: demo_domestic_def demo_international_def news_html_pair)
qed

theorem index_failure_loads_demo_witness:
  \<open>dates (snd (loadIndex sample_env Rejected init_state)) = JArr [JStr ''2025-12-09'']
   \<and> requests (snd (loadIndex sample_env Rejected init_state)) = [''../data/index.json'']
   \<and> sublist (''<h4 class="news-title">'' @ to_string (js_get demo_domestic_1 ''title'') @ ''</h4>'')
         (domestic_news (snd (loadIndex sample_env Rejected init_state)))
   \<and> sublist (''<h4 class="news-title">'' @ to_string (js_get demo_international_2 ''title'') @ ''</h4>'')
         (international_news (snd (loadIndex sample_env Rejected init_state)))\<close>
proof -
  let ?st = "snd (loadIndex sample_env Rejected init_state)"
  have f: "Rejected = Rejected \<or> Rejected = Response False None \<or> Rejected = Response True None"
    by simp
  note w = index_failure_loads_demo[OF f, of sample_env init_state]
  from w obtain h1 h2 where h: "render_item demo_domestic_1 = Inr h1" "domestic_news ?st = h1 @ h2"
    by blast
  from w obtain k1 k2 where k: "render_item demo_international_2 = Inr k2"
    "international_news ?st = k1 @ k2"
    by blast
  have e1: \<open>escapeHtml (js_or (js_get demo_domestic_1 ''title'') (JStr [])) =
            to_string (js_get demo_domestic_1 ''title'')\<close>
    by (simp add: demo_domestic_1_def js_or_def escapeHtml_def)
  have e2: \<open>escapeHtml (js_or (js_get demo_international_2 ''title'') (JStr [])) =
            to_string (js_get demo_international_2 ''title'')\<close>
    by (simp add: demo_international_2_def js_or_def escapeHtml_def)
  from render_item_Inr[OF h(1)] obtain tg where "h1 = item_html demo_domestic_1 tg" by blast
  with item_html_title[of demo_domestic_1 tg] e1
  have \<open>sublist (''<h4 class="news-title">'' @ to_string (js_get demo_domestic_1 ''title'') @ ''</h4>'') h1\<close>
    by simp
  then have s1: \<open>sublist (''<h4 class="news-title">'' @ to_string (js_get demo_domestic_1 ''title'') @ ''</h4>'')
                   (domestic_news ?st)\<close>
    unfolding h(2) by (blast intro: sublist_trans sublist_here1)
  from render_item_Inr[OF k(1)] obtain tk where "k2 = item_html demo_international_2 tk" by blast
  with item_html_title[of demo_international_2 tk] e2
  have \<open>sublist (''<h4 class="news-title">'' @ to_string (js_get demo_international_2 ''title'') @ ''</h4>'') k2\<close>
    by simp
  then have s2: \<open>sublist (''<h4 class="news-title">'' @ to_string (js_get demo_international_2 ''title'') @ ''</h4>'')
                   (international_news ?st)\<close>
    unfolding k(2) by (blast intro: sublist_skip)
  from w s1 s2 show ?thesis
    by (simp add: sample_env_def init_state_def index_url_def)
qed

section \<open>Properties of the daily loader\<close>

lemma renderNews_cases:
  "renderNews p l c s = (Some e, s') \<Longrightarrow> s' = s"
  "renderNews p l c s = (None, s') \<Longrightarrow> \<exists>h. s' = set_panel p h s"
  by (auto simp: renderNews_def split: sum.splits)

lemma loadDailyNews_try_thrown:
  assumes "loadDailyNews_try resp s = (Some e, s')"
  shows "s' = s \<or> (\<exists>h. s' = s\<lparr>domestic_news := h\<rparr>)"
proof (cases resp)
  case Rejected
  with assms show ?thesis by (simp add: loadDailyNews_try_def)
next
  case (Response ok body)
  show ?thesis
  proof (cases "ok \<and> body \<noteq> None \<and> \<not> nullish (the body)")
    case False
    with assms Response show ?thesis
      by (auto simp: loadDailyNews_try_def split: if_splits option.splits)
  next
    case True
    then obtain data where d: "body = Some data" "\<not> nullish data" "ok" by auto
    let ?r1 = "renderNews DomesticNews (js_or (js_get data ''domestic'') (JArr [])) cat_domestic s"
    obtain e1 s1 where r1: "?r1 = (e1, s1)" by (cases ?r1)
    show ?thesis
    proof (cases e1)
      case (Some x)
      with assms Response d r1 renderNews_cases(1)[of _ _ _ s x s1] show ?thesis
        by (simp add: loadDailyNews_try_def and_then_def)
    next
      case None
      with r1 renderNews_cases(2)[of DomesticNews _ _ s s1] obtain h
        where h: "s1 = s\<lparr>domestic_news := h\<rparr>" by auto
      let ?r2 = "renderNews InternationalNews
                   (js_or (js_get data ''international'') (JArr [])) cat_international s1"
      obtain e2 s2 where r2: "?r2 = (e2, s2)" by (cases ?r2)
      show ?thesis
      proof (cases e2)
        case (Some y)
        with r2 renderNews_cases(1)[of _ _ _ s1 y s2] have "s2 = s1" by simp
        with assms Response d r1 r2 None Some h show ?thesis
          by (auto simp: loadDailyNews_try_def and_then_def)
      next
        case None2: None
        with assms Response d r1 r2 None show ?thesis
          by (simp add: loadDailyNews_try_def and_then_def)
      qed
    qed
  qed
qed

lemma loadDailyNews_finish_thrown:
  assumes "fst (loadDailyNews_try resp s) \<noteq> None"
  shows "loadDailyNews_finish resp s = showEmptyState s"
proof -
  from assms obtain e s' where t: "loadDailyNews_try resp s = (Some e, s')"
    by (cases "loadDailyNews_try resp s") auto
  from loadDailyNews_try_thrown[OF t] have "showEmptyState s' = showEmptyState s"
    by (auto simp: showEmptyState_def)
  with t show ?thesis by (simp add: loadDailyNews_finish_def)
qed

lemma loadDailyNews_try_fetch_failure:
  assumes "resp = Rejected \<or> resp = Response False body \<or> resp = Response True None"
  shows "fst (loadDailyNews_try resp s) \<noteq> None"
  using assms by (auto simp: loadDailyNews_try_def)

text \<open>
  C7. For a date that is not falsy: while the fetch is in flight both panels hold the
  loading placeholder; when the fetch fails (rejected, not a success status, body not JSON)
  or anything else in the \<^verbatim>\<open>try\<close> block throws, the result is \<open>showEmptyState\<close> applied to
  the in-flight state: both panels hold the "no data" placeholder, \<open>dates\<close>,
  \<open>statistics\<close> and the summary are untouched (no demo data is substituted), and the daily
  file was requested once.
\<close>

theorem daily_failure_shows_placeholder:
  assumes "truthy date"
    and "resp = Rejected \<or> resp = Response False body \<or> resp = Response True None
         \<or> fst (loadDailyNews_try resp (loadDailyNews_start date st)) \<noteq> None"
  shows "domestic_news (loadDailyNews_start date st) = loading_html
       \<and> international_news (loadDailyNews_start date st) = loading_html
       \<and> loadDailyNews date resp st = showEmptyState (loadDailyNews_start date st)
       \<and> domestic_news (loadDailyNews date resp st) = emptyHtml
       \<and> international_news (loadDailyNews date resp st) = emptyHtml
       \<and> dates (loadDailyNews date resp st) = dates st
       \<and> statistics (loadDailyNews date resp st) = statistics st
       \<and> daily_summary (loadDailyNews date resp st) = daily_summary st
       \<and> requests (loadDailyNews date resp st) = requests st @ [daily_url date]"
proof -
  from assms(2) have "fst (loadDailyNews_try resp (loadDailyNews_start date st)) \<noteq> None"
    using loadDailyNews_try_fetch_failure[of resp body "loadDailyNews_start date st"] by blast
  from loadDailyNews_finish_thrown[OF this] assms(1)
  have "loadDailyNews date resp st = showEmptyState (loadDailyNews_start date st)"
    by (simp add: loadDailyNews_def)
  then show ?thesis
    by (simp add: showEmptyState_def loadDailyNews_start_def)
qed

theorem daily_failure_shows_placeholder_witness:
  "domestic_news (loadDailyNews_start (JStr ''2025-12-09'') init_state) = loading_html
   \<and> domestic_news (loadDailyNews (JStr ''2025-12-09'') (Response False None) init_state) = emptyHtml
   \<and> international_news (loadDailyNews (JStr ''2025-12-09'') (Response False None) init_state)
        = emptyHtml
   \<and> dates (loadDailyNews (JStr ''2025-12-09'') (Response False None) init_state) = JArr []
   \<and> requests (loadDailyNews (JStr ''2025-12-09'') (Response False None) init_state)
        = [''../data/daily/2025-12-09.json'']"
proof -
  have t: "truthy (JStr ''2025-12-09'')" by simp
  have f: "Response False None = Rejected \<or> Response False None = Response False None
         \<or> Response False None = Response True None
         \<or> fst (loadDailyNews_try (Response False None)
                  (loadDailyNews_start (JStr ''2025-12-09'') init_state)) \<noteq> None"
    by simp
  from daily_failure_shows_placeholder[OF t f] show ?thesis
    by (simp add: init_state_def daily_url_def showEmptyState_def loadDailyNews_start_def)
qed

text \<open>
  The two loaders in sequence, as the startup handler runs them (\<open>loadIndex\<close>, then
  \<open>loadDailyNews\<close> on the first date): whatever the index load rendered, a failing
  daily fetch for today's date leaves the placeholder in both panels. After a fallback to
  the demo data this replaces the demo items that \<open>loadDemoData\<close> had rendered.
\<close>

lemma startup_daily_failure_replaces_demo:
  assumes "r2 = Rejected \<or> r2 = Response False body \<or> r2 = Response True None"
    and "today env \<noteq> []"
  shows "domestic_news (loadDailyNews (JStr (today env)) r2 (snd (loadIndex env r1 st)))
           = emptyHtml
       \<and> international_news (loadDailyNews (JStr (today env)) r2 (snd (loadIndex env r1 st)))
           = emptyHtml"
proof -
  let ?s = "snd (loadIndex env r1 st)"
  have "fst (loadDailyNews_try r2 (loadDailyNews_start (JStr (today env)) ?s)) \<noteq> None"
    using loadDailyNews_try_fetch_failure[OF assms(1)] .
  from loadDailyNews_finish_thrown[OF this] assms(2)
  show ?thesis by (simp add: loadDailyNews_def showEmptyState_def)
qed

section \<open>Properties of the navigation\<close>


lemma js_indexOf_found: "0 \<le> js_indexOf ds v \<Longrightarrow> ds ! nat (js_indexOf ds v) = v"
proof (induction ds)
  case Nil
  then show ?case by simp
next
  case (Cons x xs)
  show ?case
  proof (cases "x = v")
    case True
    then show ?thesis by simp
  next
    case False
    with Cons.prems have p: "0 \<le> js_indexOf xs v"
      by (auto simp: Let_def split: if_splits)
    with False Cons.IH show ?thesis
      by (simp add: Let_def nat_add_distrib)
  qed
qed

lemma js_indexOf_absent: "v \<notin> set ds \<Longrightarrow> js_indexOf ds v = - 1"
  by (induction ds) (auto simp: Let_def)














end
